theory Spec2Isabelle
  imports Main "HOL-Library.Word"
begin

section \<open>The system calls of lab6 (kernel/syscall.c)\<close>

text \<open>
  A shallow embedding of \<^verbatim>\<open>os/lab6/kernel/syscall.c\<close>. Every handler
  \<^verbatim>\<open>sys_xxx(struct trapframe *tf)\<close> reads its arguments from the trap frame, works on
  the PCB that the global pointer \<^verbatim>\<open>current\<close> designates and returns an
  \<^verbatim>\<open>int64_t\<close>. The model passes the kernel state explicitly and returns the result
  together with the new state; a memory access that C leaves undefined (a pointer that
  designates no object, an index beyond the end of an array) is a value of type
  \<open>fault\<close>.
\<close>

subsection \<open>Machine integers and pointers\<close>

text \<open>
  \<^verbatim>\<open>uint64_t\<close> and \<^verbatim>\<open>int64_t\<close> are 64-bit words. Arithmetic wraps; \<open>unat\<close>
  reads a word as unsigned, \<open>sint\<close> as two's complement, \<open><\<close> and \<open>\<le>\<close> compare
  unsigned, \<open>word_sless\<close> and \<open>word_sle\<close> compare signed. A pointer is the address of
  an object, \<open>None\<close> is \<^verbatim>\<open>NULL\<close>.
\<close>

type_synonym u64 = "64 word"
type_synonym i64 = "64 word"
type_synonym addr = nat

datatype fault =
  BadPointer \<comment> \<open>a dereferenced pointer designates no object\<close>
| OutOfBounds \<comment> \<open>an array is indexed at or beyond its length\<close>

subsection \<open>Constants of headers that are not part of the sources at hand\<close>

text \<open>
  \<^verbatim>\<open>NR_TASKS\<close>, \<^verbatim>\<open>START_STACK\<close>, \<^verbatim>\<open>stack_size\<close> (sched.h, mm.h) and the
  error numbers \<^verbatim>\<open>EAGAIN\<close>, \<^verbatim>\<open>EINVAL\<close> (errno.h) are used by syscall.c and
  declared elsewhere. They are parameters of the model, each with the value it has after
  the integer promotion to 64 bits that its use in syscall.c performs.
\<close>

record config =
  NR_TASKS :: i64
  START_STACK :: u64
  stack_size :: u64
  EAGAIN :: i64
  EINVAL :: i64

subsection \<open>Trap frame and process control block\<close>

text \<open>
  \<^verbatim>\<open>tf->gpr.a0\<close> ... \<^verbatim>\<open>tf->gpr.a7\<close>: the saved argument registers, the only part of
  the trap frame that syscall.c reads.
\<close>

record gpr =
  a0 :: u64
  a1 :: u64
  a2 :: u64
  a3 :: u64
  a4 :: u64
  a5 :: u64
  a6 :: u64
  a7 :: u64

record trapframe =
  gpr :: gpr

text \<open>
  The fields of \<^verbatim>\<open>struct task_struct\<close> that syscall.c touches: \<^verbatim>\<open>pid\<close>,
  \<^verbatim>\<open>p_pptr\<close> (pointer to the parent's PCB), \<^verbatim>\<open>brk\<close>, \<^verbatim>\<open>end_data\<close> and the
  array \<^verbatim>\<open>fd\<close> of pointers to VFS inodes. The structure's declaration (sched.h) is not
  among the sources. Modelled from the spec: \<open>pid\<close> is a non-negative integer, the
  fd table is an array of 4 optional inode references (the invariant \<open>fd_table_ok\<close>
  below), and \<open>saved_tf\<close> is the process's saved register state while it is not running.
\<close>

record task_struct =
  pid :: nat
  p_pptr :: "addr option"
  brk :: u64
  end_data :: u64
  fd :: "addr option list"
  saved_tf :: trapframe

definition fd_table_ok :: "task_struct \<Rightarrow> bool" where
  "fd_table_ok p = (length (fd p) = 4)"

subsection \<open>Kernel state\<close>

text \<open>
  \<^verbatim>\<open>tasks\<close> is the array of PCB pointers, \<^verbatim>\<open>current\<close> the pointer to the running
  process's PCB, \<open>heap\<close> the store that maps the address of a PCB to its contents.
  The virtual file system is an external collaborator: \<open>vfs\<close> is its state, of a type
  the model leaves open, and \<open>umem\<close> is the memory that \<^verbatim>\<open>sys_stat\<close> copies a
  \<^verbatim>\<open>struct vfs_stat\<close> into, addressed by the destination pointer.
\<close>

record ('v, 'st) kstate =
  tasks :: "addr option list"
  current :: addr
  heap :: "addr \<rightharpoonup> task_struct"
  vfs :: 'v
  umem :: "u64 \<rightharpoonup> 'st"

text \<open>
  The functions of fs/vfs.h that syscall.c calls. \<^verbatim>\<open>vfs_get_inode(path, NULL)\<close> takes
  the address of the path string and returns an inode pointer or \<^verbatim>\<open>NULL\<close>;
  \<^verbatim>\<open>vfs_ref_inode\<close> and \<^verbatim>\<open>vfs_free_inode\<close> change the file system's state only
  (\<^verbatim>\<open>vfs_free_inode\<close> is handed whatever the slot held, \<^verbatim>\<open>NULL\<close> included);
  \<^verbatim>\<open>vfs_get_stat\<close> returns the inode's \<^verbatim>\<open>struct vfs_stat\<close>.
\<close>

record ('v, 'st) vfs_ops =
  vfs_get_inode :: "u64 \<Rightarrow> 'v \<Rightarrow> addr option \<times> 'v"
  vfs_ref_inode :: "addr \<Rightarrow> 'v \<Rightarrow> 'v"
  vfs_free_inode :: "addr option \<Rightarrow> 'v \<Rightarrow> 'v"
  vfs_get_stat :: "addr \<Rightarrow> 'v \<Rightarrow> 'st"

text \<open>What a handler yields: a fault, or its return value and the state it leaves.\<close>

type_synonym ('v, 'st) result = "fault + (i64 \<times> ('v, 'st) kstate)"

text \<open>\<^verbatim>\<open>current->...\<close>: the PCB that \<^verbatim>\<open>current\<close> points to.\<close>

definition deref :: "('v, 'st) kstate \<Rightarrow> addr \<Rightarrow> fault + task_struct" where
  "deref s p = (case heap s p of None \<Rightarrow> Inl BadPointer | Some t \<Rightarrow> Inr t)"

text \<open>\<^verbatim>\<open>current->field = ...\<close>: the store with the current PCB replaced.\<close>

definition set_current :: "task_struct \<Rightarrow> ('v, 'st) kstate \<Rightarrow> ('v, 'st) kstate" where
  "set_current t s = s\<lparr>heap := (heap s)(current s \<mapsto> t)\<rparr>"

subsection \<open>getppid\<close>

text \<open>
  \<^verbatim>\<open>
  static int64_t sys_getppid(struct trapframe *tf)
  {
      if (current == tasks[0]) {
          return 0;
      } else {
          return current->p_pptr->pid;
      }
  }
  \<close>
  The comparison is one of pointers. In the other branch two pointers are followed:
  \<^verbatim>\<open>current\<close> and the parent pointer, which faults when it is \<^verbatim>\<open>NULL\<close>.
\<close>

definition sys_getppid :: "trapframe \<Rightarrow> ('v, 'st) kstate \<Rightarrow> ('v, 'st) result" where
  "sys_getppid tf s =
     (case tasks s of
        [] \<Rightarrow> Inl OutOfBounds
      | t0 # _ \<Rightarrow>
          if Some (current s) = t0 then Inr (0, s)
          else
            (case deref s (current s) of
               Inl e \<Rightarrow> Inl e
             | Inr cur \<Rightarrow>
                 (case p_pptr cur of
                    None \<Rightarrow> Inl BadPointer
                  | Some pp \<Rightarrow>
                      (case deref s pp of
                         Inl e \<Rightarrow> Inl e
                       | Inr parent \<Rightarrow> Inr (of_nat (pid parent), s)))))"

subsection \<open>brk\<close>

text \<open>
  \<^verbatim>\<open>
  static int64_t sys_brk(struct trapframe *tf)
  {
      uint64_t new_brk = tf->gpr.a0;
      if (new_brk >= current->end_data && new_brk < START_STACK - stack_size)
          current->brk = new_brk;
      return current->brk;
  }
  \<close>
  Both comparisons and the subtraction are unsigned 64-bit; the value returned is read
  from the PCB after the conditional assignment.
\<close>

definition sys_brk :: "config \<Rightarrow> trapframe \<Rightarrow> ('v, 'st) kstate \<Rightarrow> ('v, 'st) result" where
  "sys_brk c tf s =
     (case deref s (current s) of
        Inl e \<Rightarrow> Inl e
      | Inr cur \<Rightarrow>
          (let new_brk = a0 (gpr tf);
               s' = (if new_brk \<ge> end_data cur \<and> new_brk < START_STACK c - stack_size c
                     then set_current (cur\<lparr>brk := new_brk\<rparr>) s
                     else s)
           in case deref s' (current s') of
                Inl e \<Rightarrow> Inl e
              | Inr cur' \<Rightarrow> Inr (brk cur', s')))"

subsection \<open>open, close, stat\<close>

text \<open>\<^verbatim>\<open>current->fd[i]\<close>, read and written: beyond the array's end the access faults.\<close>

definition fd_read :: "task_struct \<Rightarrow> u64 \<Rightarrow> fault + addr option" where
  "fd_read t i = (if unat i < length (fd t) then Inr (fd t ! unat i) else Inl OutOfBounds)"

definition fd_write :: "task_struct \<Rightarrow> u64 \<Rightarrow> addr option \<Rightarrow> fault + task_struct" where
  "fd_write t i v =
     (if unat i < length (fd t) then Inr (t\<lparr>fd := (fd t)[unat i := v]\<rparr>) else Inl OutOfBounds)"

text \<open>
  \<^verbatim>\<open>
  static int64_t sys_open(struct trapframe *tf)
  {
      uint64_t fd = 0;
      while (fd < 4) {
          if (!current->fd[fd]) {
              struct vfs_inode *inode = vfs_get_inode((const char *)tf->gpr.a0, NULL);
              current->fd[fd] = inode;
              if (inode) {
                  vfs_ref_inode(inode);
                  return fd;
              }
              break;
          }
          fd += 1;
      }
      return -EAGAIN;
  }
  \<close>
  \<open>open_loop\<close> is the \<^verbatim>\<open>while\<close> loop started at \<open>i\<close>; \<^verbatim>\<open>break\<close> and the loop's
  end both reach \<^verbatim>\<open>return -EAGAIN\<close>.
\<close>

function open_loop ::
  "config \<Rightarrow> ('v, 'st) vfs_ops \<Rightarrow> trapframe \<Rightarrow> u64 \<Rightarrow> ('v, 'st) kstate \<Rightarrow> ('v, 'st) result"
where
  "open_loop c ops tf i s =
     (if i < 4 then
        (case deref s (current s) of
           Inl e \<Rightarrow> Inl e
         | Inr cur \<Rightarrow>
             (case fd_read cur i of
                Inl e \<Rightarrow> Inl e
              | Inr None \<Rightarrow>
                  (let (inode, v1) = vfs_get_inode ops (a0 (gpr tf)) (vfs s) in
                   case fd_write cur i inode of
                     Inl e \<Rightarrow> Inl e
                   | Inr cur' \<Rightarrow>
                       (let s1 = set_current cur' (s\<lparr>vfs := v1\<rparr>) in
                        case inode of
                          Some n \<Rightarrow> Inr (i, s1\<lparr>vfs := vfs_ref_inode ops n v1\<rparr>)
                        | None \<Rightarrow> Inr (- EAGAIN c, s1)))
              | Inr (Some _) \<Rightarrow> open_loop c ops tf (i + 1) s))
      else Inr (- EAGAIN c, s))"
  by pat_completeness auto
termination
proof (relation "measure (\<lambda>(c, ops, tf, i, s). 4 - unat i)")
  show "wf (measure (\<lambda>(c, ops, tf, i, s). 4 - unat i))"
    by simp
next
  fix c :: config and ops :: "('v, 'st) vfs_ops" and tf :: trapframe and i :: u64
    and s :: "('v, 'st) kstate" and x1 x2 x3
  assume "i < 4"
  then have "unat i < 4"
    by (simp add: word_less_nat_alt)
  then have "unat (i + 1) = unat i + 1"
    by (simp add: unat_word_ariths)
  with \<open>unat i < 4\<close>
  show "((c, ops, tf, i + 1, s), (c, ops, tf, i, s)) \<in> measure (\<lambda>(c, ops, tf, i, s). 4 - unat i)"
    by simp
qed

definition sys_open ::
  "config \<Rightarrow> ('v, 'st) vfs_ops \<Rightarrow> trapframe \<Rightarrow> ('v, 'st) kstate \<Rightarrow> ('v, 'st) result"
where
  "sys_open c ops tf s = open_loop c ops tf 0 s"

text \<open>
  \<^verbatim>\<open>
  static int64_t sys_close(struct trapframe *tf)
  {
      uint64_t fd = tf->gpr.a0;
      if (fd < 0 || fd > 4) return -EINVAL;
      struct vfs_inode *inode = current->fd[fd];
      current->fd[fd] = NULL;
      vfs_free_inode(inode);
      return 0;
  }
  \<close>
  \<^verbatim>\<open>fd\<close> is unsigned, so \<^verbatim>\<open>fd < 0\<close> is false whatever \<^verbatim>\<open>fd\<close> is; the guard that
  remains is \<^verbatim>\<open>fd > 4\<close>.
\<close>

definition sys_close ::
  "config \<Rightarrow> ('v, 'st) vfs_ops \<Rightarrow> trapframe \<Rightarrow> ('v, 'st) kstate \<Rightarrow> ('v, 'st) result"
where
  "sys_close c ops tf s =
     (let fdn = a0 (gpr tf) in
      if fdn < 0 \<or> fdn > 4 then Inr (- EINVAL c, s)
      else
        (case deref s (current s) of
           Inl e \<Rightarrow> Inl e
         | Inr cur \<Rightarrow>
             (case fd_read cur fdn of
                Inl e \<Rightarrow> Inl e
              | Inr inode \<Rightarrow>
                  (case fd_write cur fdn None of
                     Inl e \<Rightarrow> Inl e
                   | Inr cur' \<Rightarrow>
                       Inr (0, set_current cur' (s\<lparr>vfs := vfs_free_inode ops inode (vfs s)\<rparr>))))))"

text \<open>
  \<^verbatim>\<open>
  static int64_t sys_stat(struct trapframe *tf) {
      uint64_t fd = tf->gpr.a0;
      if (fd < 0 || fd > 4) return -EINVAL;
      struct vfs_inode *inode = current->fd[fd];
      if (!inode) return -EINVAL;
      struct vfs_stat *stat= vfs_get_stat(inode);
      memcpy((void *)tf->gpr.a1, stat, sizeof(struct vfs_stat));
      return 0;
  }
  \<close>
\<close>

definition sys_stat ::
  "config \<Rightarrow> ('v, 'st) vfs_ops \<Rightarrow> trapframe \<Rightarrow> ('v, 'st) kstate \<Rightarrow> ('v, 'st) result"
where
  "sys_stat c ops tf s =
     (let fdn = a0 (gpr tf) in
      if fdn < 0 \<or> fdn > 4 then Inr (- EINVAL c, s)
      else
        (case deref s (current s) of
           Inl e \<Rightarrow> Inl e
         | Inr cur \<Rightarrow>
             (case fd_read cur fdn of
                Inl e \<Rightarrow> Inl e
              | Inr None \<Rightarrow> Inr (- EINVAL c, s)
              | Inr (Some inode) \<Rightarrow>
                  Inr (0, s\<lparr>umem := (umem s)(a1 (gpr tf) \<mapsto> vfs_get_stat ops inode (vfs s))\<rparr>))))"

subsection \<open>The user-side wrapper\<close>

text \<open>
  \<^verbatim>\<open>
  int64_t syscall(int64_t number, ...)
  {
      va_list ap;
      va_start(ap, number);
      int64_t arg1 = va_arg(ap, int64_t);
      int64_t arg2 = va_arg(ap, int64_t);
      int64_t arg3 = va_arg(ap, int64_t);
      int64_t arg4 = va_arg(ap, int64_t);
      int64_t arg5 = va_arg(ap, int64_t);
      int64_t arg6 = va_arg(ap, int64_t);
      int64_t ret = 0;
      va_end(ap);
      if (number > 0 && number < NR_TASKS) {
          register int64_t a0 asm("a0") = arg1;
          register int64_t a1 asm("a1") = arg2;
          register int64_t a2 asm("a2") = arg3;
          register int64_t a3 asm("a3") = arg4;
          register int64_t a4 asm("a4") = arg5;
          register int64_t a5 asm("a5") = arg6;
          register int64_t a7 asm("a7") = number;
          __asm__ __volatile__ ("ecall"
                  :"=r"(a0)
                  :"r" (a1), "r" (a2), "r" (a3), "r" (a4), "r" (a5), "r" (a7)
                  :"memory");
          ret = a0;
      } else {
          panic("Try to call unknown system call");
      }
      if (ret < 0) {
          errno = -ret;
          return -1;
      }
      return ret;
  }
  \<close>
  The comparisons are signed. The trap handler that serves the \<^verbatim>\<open>ecall\<close> and
  indexes \<^verbatim>\<open>syscall_table\<close> is not part of syscall.c: it is the parameter
  \<open>ecall\<close>, which maps the call number, the six arguments and the state of the
  kernel to the value left in \<^verbatim>\<open>a0\<close> and the new state, or to \<open>None\<close> when
  control never comes back (\<^verbatim>\<open>sys_exit\<close>). The register variable \<^verbatim>\<open>a0\<close> is
  initialised with \<^verbatim>\<open>arg1\<close> and is an output of the asm statement only; the model
  hands all six arguments to the handler, and nothing proved below depends on them. The
  negation \<^verbatim>\<open>-ret\<close> is the negation of a 64-bit register.

  Modelled from the spec: \<^verbatim>\<open>panic\<close> (kdebug.h) halts the kernel and does not return;
  \<^verbatim>\<open>errno\<close> (errno.h) is a process-wide variable that keeps the 64 bits assigned
  to it, and no system call writes it. Its declaration is not among the sources: the
  error code it holds is a magnitude, the stored bits read as an unsigned number
  (\<open>uint\<close>).
\<close>

record sysargs =
  arg1 :: i64
  arg2 :: i64
  arg3 :: i64
  arg4 :: i64
  arg5 :: i64
  arg6 :: i64

record 'k ustate =
  errno :: i64
  kernel :: 'k

datatype 'k outcome =
  Panic \<comment> \<open>the kernel halted in \<^verbatim>\<open>panic\<close>\<close>
| NoReturn \<comment> \<open>the environment call did not come back\<close>
| Returns i64 "'k ustate" \<comment> \<open>the value returned and the state left\<close>

definition syscall ::
  "config \<Rightarrow> (i64 \<Rightarrow> sysargs \<Rightarrow> 'k \<Rightarrow> (i64 \<times> 'k) option) \<Rightarrow>
   i64 \<Rightarrow> sysargs \<Rightarrow> 'k ustate \<Rightarrow> 'k outcome"
where
  "syscall c ecall number args u =
     (if word_sless 0 number \<and> word_sless number (NR_TASKS c) then
        (case ecall number args (kernel u) of
           None \<Rightarrow> NoReturn
         | Some (ret, k') \<Rightarrow>
             if word_sless ret 0 then Returns (- 1) (u\<lparr>errno := - ret, kernel := k'\<rparr>)
             else Returns ret (u\<lparr>kernel := k'\<rparr>))
      else Panic)"

subsection \<open>fork\<close>

text \<open>
  Modelled from the spec: \<^verbatim>\<open>sys_fork\<close> is declared \<^verbatim>\<open>extern\<close> in syscall.c and
  defined in a file that is not among the sources. The spec (4.3): fork duplicates the
  calling process's PCB into a free table slot: new pid, parent = caller, trapframe
  cloned so the syscall returns 0 in the child and the child's pid in the parent,
  brk and end_data copied by value; fd tables are not inherited (section 9). A pid is a
  unique positive integer (section 3), and a handler's success value is a non-negative
  signed 64-bit number (4.2). Which pid is taken and where the new PCB is placed is not
  said: they are the arguments \<open>new_pid\<close> and \<open>new_pcb\<close>, and fork succeeds
  only when \<open>new_pid\<close> is positive, below \<open>2 ^ 63\<close> and not the pid of a process
  in the table, \<open>new_pcb\<close> is memory not in use, and a slot of the table is free.
  What fork returns when it fails is not said either: the model yields \<open>None\<close>.
\<close>

fun first_free_slot :: "addr option list \<Rightarrow> nat option" where
  "first_free_slot [] = None"
| "first_free_slot (None # ts) = Some 0"
| "first_free_slot (Some _ # ts) = map_option Suc (first_free_slot ts)"

text \<open>The pids of the processes that the slots of the task table point to.\<close>

definition pids_in_use :: "('v, 'st) kstate \<Rightarrow> nat list" where
  "pids_in_use s =
     concat (map (\<lambda>slot. case slot of
                          None \<Rightarrow> []
                        | Some p \<Rightarrow> (case heap s p of None \<Rightarrow> [] | Some t \<Rightarrow> [pid t]))
                 (tasks s))"

definition sys_fork ::
  "nat \<Rightarrow> addr \<Rightarrow> trapframe \<Rightarrow> ('v, 'st) kstate \<Rightarrow> (i64 \<times> ('v, 'st) kstate) option"
where
  "sys_fork new_pid new_pcb tf s =
     (case heap s (current s) of
        None \<Rightarrow> None
      | Some cur \<Rightarrow>
          (case first_free_slot (tasks s) of
             None \<Rightarrow> None
           | Some slot \<Rightarrow>
               if new_pid = 0 \<or> 2 ^ 63 \<le> new_pid \<or> new_pid \<in> set (pids_in_use s)
                  \<or> heap s new_pcb \<noteq> None
               then None
               else
                 (let child = cur\<lparr>pid := new_pid, p_pptr := Some (current s),
                                   fd := replicate 4 None,
                                   saved_tf := tf\<lparr>gpr := (gpr tf)\<lparr>a0 := 0\<rparr>\<rparr>\<rparr>
                  in Some (of_nat new_pid,
                           s\<lparr>tasks := (tasks s)[slot := Some new_pcb],
                             heap := (heap s)(new_pcb \<mapsto> child)\<rparr>))))"

subsection \<open>Example states\<close>

text \<open>
  A configuration, a file system and two kernel states on which the contracts below are
  run. The file system's state is a counter: a lookup, which yields \<open>found\<close>, adds 10
  to it, a reference taken adds 1 and a reference released takes 1 away; a
  \<^verbatim>\<open>struct vfs_stat\<close> is a number.
\<close>

definition ex_cfg :: config where
  "ex_cfg = \<lparr>NR_TASKS = 64, START_STACK = 0x80000000, stack_size = 0x1000,
             EAGAIN = 11, EINVAL = 22\<rparr>"

definition ex_ops :: "addr option \<Rightarrow> (nat, nat) vfs_ops" where
  "ex_ops found =
     \<lparr>vfs_get_inode = (\<lambda>path v. (found, v + 10)),
      vfs_ref_inode = (\<lambda>n v. v + 1),
      vfs_free_inode = (\<lambda>n v. v - 1),
      vfs_get_stat = (\<lambda>n v. n)\<rparr>"

definition ex_tf :: "u64 \<Rightarrow> trapframe" where
  "ex_tf x = \<lparr>gpr = \<lparr>a0 = x, a1 = 0, a2 = 0, a3 = 0, a4 = 0, a5 = 0, a6 = 0, a7 = 0\<rparr>\<rparr>"

definition ex_pcb :: "nat \<Rightarrow> addr option \<Rightarrow> addr option list \<Rightarrow> task_struct" where
  "ex_pcb n parent fds =
     \<lparr>pid = n, p_pptr = parent, brk = 0x5000, end_data = 0x4000, fd = fds,
      saved_tf = ex_tf 0\<rparr>"

text \<open>
  Two processes: init at address 100 in slot 0 and its child, pid 1, at address 200 in
  slot 1, which is the one running. \<open>ex_state fds\<close> gives the child the fd table
  \<open>fds\<close>.
\<close>

definition ex_state :: "addr option list \<Rightarrow> (nat, nat) kstate" where
  "ex_state fds =
     \<lparr>tasks = [Some 100, Some 200, None],
      current = 200,
      heap = [100 \<mapsto> ex_pcb 0 None [None, None, None, None], 200 \<mapsto> ex_pcb 1 (Some 100) fds],
      vfs = 0,
      umem = Map.empty\<rparr>"

definition ex_args :: sysargs where
  "ex_args = \<lparr>arg1 = 0, arg2 = 0, arg3 = 0, arg4 = 0, arg5 = 0, arg6 = 0\<rparr>"

text \<open>A trap handler that answers every call with \<open>r\<close> and leaves the kernel as it is.\<close>

definition ex_ecall :: "i64 \<Rightarrow> i64 \<Rightarrow> sysargs \<Rightarrow> unit \<Rightarrow> (i64 \<times> unit) option" where
  "ex_ecall r number args k = Some (r, k)"

section \<open>Properties\<close>

subsection \<open>Arithmetic of 64-bit values\<close>

text \<open>The negation of a negative 64-bit value, read unsigned, is its magnitude.\<close>

lemma uint_neg_abs:
  fixes r :: i64
  assumes neg: "sint r < 0"
  shows "uint (- r) = \<bar>sint r\<bar>"
proof -
  have "- (2 ^ 63) \<le> sint r"
    using sint_ge [of r] by simp
  moreover have "(2::int) ^ 63 < 2 ^ 64"
    by simp
  ultimately have range: "0 \<le> - sint r" "- sint r < 2 ^ 64"
    using neg by linarith+
  have "uint r = sint r mod 2 ^ 64"
    by (simp add: uint_sint take_bit_eq_mod)
  then have "uint (- r) = (- (sint r mod 2 ^ 64)) mod 2 ^ 64"
    by (simp add: uint_word_ariths)
  also have "\<dots> = (- sint r) mod 2 ^ 64"
    by (simp add: mod_minus_eq)
  also from range have "\<dots> = - sint r"
    by (rule mod_pos_pos_trivial)
  finally show ?thesis
    using neg by simp
qed

lemma sint_of_nat_small:
  assumes "n < 2 ^ 63"
  shows "sint (of_nat n :: i64) = int n"
proof -
  have "sint (of_nat n :: i64) = signed_take_bit 63 (int n)"
    by (simp add: signed_of_nat)
  also have "\<dots> = int n"
  proof (rule signed_take_bit_int_eq_self)
    show "- (2 ^ 63) \<le> int n" by simp
    from assms have "int n < int (2 ^ 63)" by (simp only: of_nat_less_iff)
    then show "int n < 2 ^ 63" by simp
  qed
  finally show ?thesis .
qed

lemma sint_unat_small:
  fixes b :: u64
  assumes "unat b < 2 ^ 63"
  shows "sint b = int (unat b)"
  using sint_of_nat_small [OF assms] by simp

lemma nat_lt_4_cases: "(k::nat) < 4 \<Longrightarrow> k = 0 \<or> k = 1 \<or> k = 2 \<or> k = 3"
  by arith

text \<open>The negation of a positive error number is none of the fd indices 0, 1, 2, 3.\<close>

lemma neg_errno_not_index:
  fixes e :: i64
  assumes e: "word_sless 0 e" and k: "k < 4"
  shows "- e \<noteq> of_nat k"
proof
  assume "- e = of_nat k"
  then have "e = - of_nat k" by (metis add.inverse_inverse)
  with e nat_lt_4_cases [OF k] show False
    by (auto simp: word_sless_alt)
qed

subsection \<open>The wrapper\<close>

text \<open>
  C1. A call number \<open>n\<close> with \<open>n \<le> 0\<close> or \<open>n \<ge> NR_TASKS\<close> ends in \<open>Panic\<close>.
  Otherwise, when the handler's result \<open>r\<close> is negative, the wrapper returns \<open>-1\<close>
  and stores the negation of \<open>r\<close> in \<open>errno\<close>: the error code is \<open>|r|\<close>. When
  \<open>r\<close> is not negative, the wrapper returns \<open>r\<close>.
\<close>

theorem syscall_contract:
  "(sint n \<le> 0 \<or> sint (NR_TASKS c) \<le> sint n \<longrightarrow> syscall c ecall n args u = Panic)
   \<and> (0 < sint n \<and> sint n < sint (NR_TASKS c) \<and> ecall n args (kernel u) = Some (r, k')
        \<longrightarrow> (sint r < 0 \<longrightarrow>
               (\<exists>u'. syscall c ecall n args u = Returns (- 1) u'
                     \<and> u' = u\<lparr>errno := - r, kernel := k'\<rparr>
                     \<and> uint (errno u') = \<bar>sint r\<bar>))
          \<and> (0 \<le> sint r \<longrightarrow> syscall c ecall n args u = Returns r (u\<lparr>kernel := k'\<rparr>)))"
  by (auto simp: syscall_def word_sless_alt uint_neg_abs)

theorem syscall_contract_witness:
  "syscall ex_cfg (ex_ecall 0) 0 ex_args \<lparr>errno = 5, kernel = ()\<rparr> = Panic
   \<and> syscall ex_cfg (ex_ecall 0) 64 ex_args \<lparr>errno = 5, kernel = ()\<rparr> = Panic
   \<and> syscall ex_cfg (ex_ecall (- 22)) 8 ex_args \<lparr>errno = 5, kernel = ()\<rparr>
       = Returns (- 1) \<lparr>errno = 22, kernel = ()\<rparr>
   \<and> uint (22 :: i64) = \<bar>sint (- 22 :: i64)\<bar>
   \<and> syscall ex_cfg (ex_ecall 3) 7 ex_args \<lparr>errno = 5, kernel = ()\<rparr>
       = Returns 3 \<lparr>errno = 5, kernel = ()\<rparr>"
  using syscall_contract [of 0 ex_cfg "ex_ecall 0" ex_args "\<lparr>errno = 5, kernel = ()\<rparr>"]
    syscall_contract [of 64 ex_cfg "ex_ecall 0" ex_args "\<lparr>errno = 5, kernel = ()\<rparr>"]
    syscall_contract [of 8 ex_cfg "ex_ecall (- 22)" ex_args "\<lparr>errno = 5, kernel = ()\<rparr>" "- 22" "()"]
    syscall_contract [of 7 ex_cfg "ex_ecall 3" ex_args "\<lparr>errno = 5, kernel = ()\<rparr>" 3 "()"]
  by (simp add: ex_cfg_def ex_ecall_def word_sless_alt)

text \<open>
  C10. An in-range call whose handler returns a non-negative \<open>v\<close> returns \<open>v\<close> and
  leaves \<open>errno\<close> as it was; whenever a call returns with \<open>errno\<close> changed, the handler's
  result was negative.
\<close>

theorem syscall_errno_frame:
  "(0 < sint n \<and> sint n < sint (NR_TASKS c) \<and> ecall n args (kernel u) = Some (v, k')
      \<and> 0 \<le> sint v
     \<longrightarrow> (\<exists>u'. syscall c ecall n args u = Returns v u' \<and> errno u' = errno u \<and> kernel u' = k'))
   \<and> (syscall c ecall n args u = Returns w u' \<and> errno u' \<noteq> errno u
     \<longrightarrow> (\<exists>r k'. ecall n args (kernel u) = Some (r, k') \<and> sint r < 0 \<and> w = - 1))"
  by (auto simp: syscall_def word_sless_alt split: if_splits option.splits)

theorem syscall_errno_frame_witness:
  "(\<exists>u'. syscall ex_cfg (ex_ecall 3) 7 ex_args \<lparr>errno = 5, kernel = ()\<rparr> = Returns 3 u'
         \<and> errno u' = 5)
   \<and> syscall ex_cfg (ex_ecall (- 22)) 8 ex_args \<lparr>errno = 5, kernel = ()\<rparr>
       = Returns (- 1) \<lparr>errno = 22, kernel = ()\<rparr>
   \<and> (\<exists>r k'. ex_ecall (- 22) 8 ex_args () = Some (r, k') \<and> sint r < 0)"
  using syscall_errno_frame [of 7 ex_cfg "ex_ecall 3" ex_args "\<lparr>errno = 5, kernel = ()\<rparr>" 3 "()"]
    syscall_errno_frame [of 8 ex_cfg "ex_ecall (- 22)" ex_args "\<lparr>errno = 5, kernel = ()\<rparr>" _ _
      "- 1" "\<lparr>errno = 22, kernel = ()\<rparr>"]
  by (simp add: syscall_def ex_cfg_def ex_ecall_def word_sless_alt)

subsection \<open>brk\<close>

text \<open>
  C4. For a process whose PCB is \<open>cur\<close>, \<open>brk(b)\<close> stores \<open>b\<close> when
  \<open>end_data \<le> b < START_STACK - stack_size\<close> and leaves the stored brk as it is
  otherwise; nothing else of the PCB and of the kernel state changes. It returns the
  stored brk and has no error path: where the heap's upper bound
  \<open>START_STACK - stack_size\<close> is at most \<open>2 ^ 63\<close> and the brk before the call is
  below \<open>2 ^ 63\<close>, the value returned is not negative as an \<^verbatim>\<open>int64_t\<close>. A second
  call with the same argument returns the same value and leaves the same state.
\<close>

theorem sys_brk_contract:
  assumes cur: "heap s (current s) = Some cur"
  shows "\<exists>s' cur'.
           sys_brk c tf s = Inr (brk cur', s')
         \<and> current s' = current s
         \<and> heap s' = (heap s)(current s \<mapsto> cur')
         \<and> s' = s\<lparr>heap := heap s'\<rparr>
         \<and> cur' = cur\<lparr>brk := brk cur'\<rparr>
         \<and> brk cur' =
             (if end_data cur \<le> a0 (gpr tf) \<and> a0 (gpr tf) < START_STACK c - stack_size c
              then a0 (gpr tf) else brk cur)
         \<and> (unat (START_STACK c - stack_size c) \<le> 2 ^ 63 \<and> unat (brk cur) < 2 ^ 63
               \<longrightarrow> 0 \<le> sint (brk cur'))
         \<and> sys_brk c tf s' = Inr (brk cur', s')"
proof (cases "end_data cur \<le> a0 (gpr tf) \<and> a0 (gpr tf) < START_STACK c - stack_size c")
  case True
  let ?cur' = "cur\<lparr>brk := a0 (gpr tf)\<rparr>"
  let ?s' = "set_current ?cur' s"
  from cur True have "sys_brk c tf s = Inr (brk ?cur', ?s')"
    by (simp add: sys_brk_def deref_def set_current_def Let_def)
  moreover from True have "sys_brk c tf ?s' = Inr (brk ?cur', ?s')"
    by (simp add: sys_brk_def deref_def set_current_def Let_def)
  moreover have "unat (START_STACK c - stack_size c) \<le> 2 ^ 63 \<and> unat (brk cur) < 2 ^ 63
      \<longrightarrow> 0 \<le> sint (brk ?cur')"
  proof
    assume "unat (START_STACK c - stack_size c) \<le> 2 ^ 63 \<and> unat (brk cur) < 2 ^ 63"
    moreover from True have "unat (a0 (gpr tf)) < unat (START_STACK c - stack_size c)"
      by (simp add: word_less_nat_alt)
    ultimately have "unat (a0 (gpr tf)) < 2 ^ 63" by linarith
    then show "0 \<le> sint (brk ?cur')"
      by (simp add: sint_unat_small)
  qed
  ultimately show ?thesis
    using True by (intro exI [of _ ?s'] exI [of _ ?cur']) (simp add: set_current_def)
next
  case False
  from cur False have "sys_brk c tf s = Inr (brk cur, s)"
    by (auto simp add: sys_brk_def deref_def Let_def)
  moreover have "unat (START_STACK c - stack_size c) \<le> 2 ^ 63 \<and> unat (brk cur) < 2 ^ 63
      \<longrightarrow> 0 \<le> sint (brk cur)"
    by (simp add: sint_unat_small)
  moreover from cur have "(heap s)(current s \<mapsto> cur) = heap s"
    by (rule map_upd_triv)
  ultimately show ?thesis
    using False by (intro exI [of _ s] exI [of _ cur]) auto
qed

theorem sys_brk_contract_witness:
  "heap (ex_state []) (current (ex_state [])) = Some (ex_pcb 1 (Some 100) [])
   \<and> sys_brk ex_cfg (ex_tf 0x6000) (ex_state [])
       = Inr (0x6000, set_current ((ex_pcb 1 (Some 100) [])\<lparr>brk := 0x6000\<rparr>) (ex_state []))
   \<and> sys_brk ex_cfg (ex_tf 0x6000)
         (set_current ((ex_pcb 1 (Some 100) [])\<lparr>brk := 0x6000\<rparr>) (ex_state []))
       = Inr (0x6000, set_current ((ex_pcb 1 (Some 100) [])\<lparr>brk := 0x6000\<rparr>) (ex_state []))
   \<and> sys_brk ex_cfg (ex_tf 0x3000) (ex_state []) = Inr (0x5000, ex_state [])
   \<and> sys_brk ex_cfg (ex_tf 0x7ffff000) (ex_state []) = Inr (0x5000, ex_state [])
   \<and> unat (START_STACK ex_cfg - stack_size ex_cfg) \<le> 2 ^ 63
   \<and> unat (brk (ex_pcb 1 (Some 100) [])) < 2 ^ 63
   \<and> 0 \<le> sint (0x6000 :: i64)"
proof -
  have h: "heap (ex_state []) (current (ex_state [])) = Some (ex_pcb 1 (Some 100) [])"
    by (simp add: ex_state_def)
  show ?thesis
    using h sys_brk_contract [OF h, of ex_cfg "ex_tf 0x6000"]
    by (simp add: sys_brk_def deref_def set_current_def ex_state_def ex_pcb_def ex_tf_def
        ex_cfg_def Let_def)
qed

subsection \<open>getppid\<close>

text \<open>
  C7. In a kernel whose task table has a slot 0: when the running process is init
  (\<^verbatim>\<open>current == tasks[0]\<close>), getppid returns 0; otherwise, when the running process's
  parent pointer is not \<^verbatim>\<open>NULL\<close> and designates a PCB, getppid returns that PCB's
  pid. Neither case faults or changes the state, and for a pid below \<open>2 ^ 63\<close> the
  value returned, read as an \<^verbatim>\<open>int64_t\<close>, is the pid itself and so not negative.
\<close>

theorem sys_getppid_contract:
  "(tasks s = t0 # ts \<and> t0 = Some (current s) \<longrightarrow> sys_getppid tf s = Inr (0, s))
   \<and> (tasks s = t0 # ts \<and> t0 \<noteq> Some (current s) \<and> heap s (current s) = Some cur
        \<and> p_pptr cur = Some pp \<and> heap s pp = Some parent
      \<longrightarrow> sys_getppid tf s = Inr (of_nat (pid parent), s)
          \<and> (pid parent < 2 ^ 63 \<longrightarrow> sint (of_nat (pid parent) :: i64) = int (pid parent)))"
  by (auto simp: sys_getppid_def deref_def sint_of_nat_small)

theorem sys_getppid_contract_witness:
  "sys_getppid (ex_tf 0) ((ex_state [])\<lparr>current := 100\<rparr>)
     = Inr (0, (ex_state [])\<lparr>current := 100\<rparr>)
   \<and> sys_getppid (ex_tf 0)
        ((ex_state [])\<lparr>heap := (heap (ex_state []))(100 \<mapsto> ex_pcb 7 None [])\<rparr>)
     = Inr (7, (ex_state [])\<lparr>heap := (heap (ex_state []))(100 \<mapsto> ex_pcb 7 None [])\<rparr>)
   \<and> sint (7 :: i64) = 7"
  using
    sys_getppid_contract [where s = "(ex_state [])\<lparr>current := 100\<rparr>" and ?t0.0 = "Some 100"
      and ts = "[Some 200, None]" and tf = "ex_tf 0"]
    sys_getppid_contract
      [where s = "(ex_state [])\<lparr>heap := (heap (ex_state []))(100 \<mapsto> ex_pcb 7 None [])\<rparr>"
        and ?t0.0 = "Some 100" and ts = "[Some 200, None]" and cur = "ex_pcb 1 (Some 100) []"
        and pp = 100 and parent = "ex_pcb 7 None []" and tf = "ex_tf 0"]
  by (simp add: ex_state_def ex_pcb_def)

subsection \<open>open\<close>

lemma fd_table_4: "fd_table_ok cur \<Longrightarrow> \<exists>f0 f1 f2 f3. fd cur = [f0, f1, f2, f3]"
  by (auto simp: fd_table_ok_def length_Suc_conv numeral_eq_Suc)

lemma fd_same: "fd cur = xs \<Longrightarrow> cur\<lparr>fd := xs\<rparr> = cur"
  by auto

lemma heap_same_vfs:
  "heap s (current s) = Some cur \<Longrightarrow>
   s\<lparr>vfs := v, heap := (heap s)(current s \<mapsto> cur)\<rparr> = s\<lparr>vfs := v\<rparr>"
  by (simp add: map_upd_triv)

text \<open>
  The loop at the first empty slot \<open>k\<close>: the slots before it are skipped, the lookup
  is made once, and its outcome decides the call. A failed lookup writes \<^verbatim>\<open>NULL\<close> into
  a slot that holds \<^verbatim>\<open>NULL\<close>, so only the file system's state moves.
\<close>

lemma sys_open_first_empty:
  assumes cur: "heap s (current s) = Some cur" and ok: "fd_table_ok cur"
    and k: "k < 4" and occ: "\<forall>j<k. fd cur ! j \<noteq> None" and emp: "fd cur ! k = None"
  shows "vfs_get_inode ops (a0 (gpr tf)) (vfs s) = (Some n, v1) \<Longrightarrow>
           sys_open c ops tf s =
             Inr (of_nat k,
                  s\<lparr>heap := (heap s)(current s \<mapsto> cur\<lparr>fd := (fd cur)[k := Some n]\<rparr>),
                    vfs := vfs_ref_inode ops n v1\<rparr>)"
    and "vfs_get_inode ops (a0 (gpr tf)) (vfs s) = (None, v1) \<Longrightarrow>
           sys_open c ops tf s = Inr (- EAGAIN c, s\<lparr>vfs := v1\<rparr>)"
proof -
  from ok obtain f0 f1 f2 f3 where fds: "fd cur = [f0, f1, f2, f3]"
    using fd_table_4 by blast
  note defs = sys_open_def deref_def fd_read_def fd_write_def set_current_def
  have "(vfs_get_inode ops (a0 (gpr tf)) (vfs s) = (Some n, v1) \<longrightarrow>
           sys_open c ops tf s =
             Inr (of_nat k,
                  s\<lparr>heap := (heap s)(current s \<mapsto> cur\<lparr>fd := (fd cur)[k := Some n]\<rparr>),
                    vfs := vfs_ref_inode ops n v1\<rparr>))
      \<and> (vfs_get_inode ops (a0 (gpr tf)) (vfs s) = (None, v1) \<longrightarrow>
           sys_open c ops tf s = Inr (- EAGAIN c, s\<lparr>vfs := v1\<rparr>))"
    using nat_lt_4_cases [OF k]
  proof (elim disjE)
    assume "k = 0"
    with emp fds cur show ?thesis
      by (auto simp add: defs fd_same heap_same_vfs)
  next
    assume k1: "k = 1"
    with occ have "fd cur ! 0 \<noteq> None" by simp
    with k1 emp fds cur show ?thesis
      by (auto simp add: defs fd_same heap_same_vfs)
  next
    assume k2: "k = 2"
    with occ have "fd cur ! 0 \<noteq> None" "fd cur ! 1 \<noteq> None" by simp_all
    with k2 emp fds cur show ?thesis
      by (auto simp add: defs fd_same heap_same_vfs)
  next
    assume k3: "k = 3"
    with occ have "fd cur ! 0 \<noteq> None" "fd cur ! 1 \<noteq> None" "fd cur ! 2 \<noteq> None" by simp_all
    with k3 emp fds cur show ?thesis
      by (auto simp add: defs fd_same heap_same_vfs)
  qed
  then show "vfs_get_inode ops (a0 (gpr tf)) (vfs s) = (Some n, v1) \<Longrightarrow>
           sys_open c ops tf s =
             Inr (of_nat k,
                  s\<lparr>heap := (heap s)(current s \<mapsto> cur\<lparr>fd := (fd cur)[k := Some n]\<rparr>),
                    vfs := vfs_ref_inode ops n v1\<rparr>)"
    and "vfs_get_inode ops (a0 (gpr tf)) (vfs s) = (None, v1) \<Longrightarrow>
           sys_open c ops tf s = Inr (- EAGAIN c, s\<lparr>vfs := v1\<rparr>)"
    by simp_all
qed

lemma sys_open_full:
  assumes cur: "heap s (current s) = Some cur" and ok: "fd_table_ok cur"
    and occ: "\<forall>j<4. fd cur ! j \<noteq> None"
  shows "sys_open c ops tf s = Inr (- EAGAIN c, s)"
proof -
  from ok obtain f0 f1 f2 f3 where fds: "fd cur = [f0, f1, f2, f3]"
    using fd_table_4 by blast
  from occ have "fd cur ! 0 \<noteq> None" "fd cur ! 1 \<noteq> None" "fd cur ! 2 \<noteq> None"
    "fd cur ! 3 \<noteq> None"
    by simp_all
  with fds cur show ?thesis
    by (auto simp add: sys_open_def deref_def fd_read_def)
qed

lemma first_empty_or_full:
  fixes xs :: "'a option list"
  shows "(\<forall>j<4. xs ! j \<noteq> None) \<or> (\<exists>k<4. xs ! k = None \<and> (\<forall>j<k. xs ! j \<noteq> None))"
proof (cases "\<forall>j<4. xs ! j \<noteq> None")
  case True
  then show ?thesis by simp
next
  case False
  then have ex: "\<exists>k. k < 4 \<and> xs ! k = None" by auto
  define k where "k = (LEAST k. k < 4 \<and> xs ! k = None)"
  from ex have first: "k < 4 \<and> xs ! k = None"
    unfolding k_def by (rule LeastI_ex)
  have "\<forall>j<k. xs ! j \<noteq> None"
  proof (intro allI impI notI)
    fix j assume "j < k" "xs ! j = None"
    with first have "j < 4 \<and> xs ! j = None" by simp
    then have "k \<le> j" unfolding k_def by (rule Least_le)
    with \<open>j < k\<close> show False by simp
  qed
  with first show ?thesis by blast
qed

text \<open>
  C3. The slots are examined in the order 0, 1, 2, 3. With \<open>k\<close> the first empty slot:
  when the lookup yields an inode, slot \<open>k\<close> is bound to it, a reference is taken and
  \<open>k\<close> is returned; when the lookup fails, open returns \<open>-EAGAIN\<close> with the table as
  it was and the file system in the state the one lookup left, so no later slot was
  tried. With no empty slot, open returns \<open>-EAGAIN\<close> and nothing changes.
\<close>

theorem sys_open_scan:
  assumes cur: "heap s (current s) = Some cur" and ok: "fd_table_ok cur"
  shows "(k < 4 \<and> fd cur ! k = None \<and> (\<forall>j<k. fd cur ! j \<noteq> None)
            \<and> vfs_get_inode ops (a0 (gpr tf)) (vfs s) = (Some n, v1)
          \<longrightarrow> sys_open c ops tf s =
                Inr (of_nat k,
                     s\<lparr>heap := (heap s)(current s \<mapsto> cur\<lparr>fd := (fd cur)[k := Some n]\<rparr>),
                       vfs := vfs_ref_inode ops n v1\<rparr>))
       \<and> (k < 4 \<and> fd cur ! k = None \<and> (\<forall>j<k. fd cur ! j \<noteq> None)
            \<and> vfs_get_inode ops (a0 (gpr tf)) (vfs s) = (None, v1)
          \<longrightarrow> sys_open c ops tf s = Inr (- EAGAIN c, s\<lparr>vfs := v1\<rparr>))
       \<and> ((\<forall>j<4. fd cur ! j \<noteq> None) \<longrightarrow> sys_open c ops tf s = Inr (- EAGAIN c, s))"
  using sys_open_first_empty [OF cur ok] sys_open_full [OF cur ok] by blast

theorem sys_open_scan_witness:
  "heap (ex_state [Some 7, None, Some 9, None]) (current (ex_state [Some 7, None, Some 9, None]))
     = Some (ex_pcb 1 (Some 100) [Some 7, None, Some 9, None])
   \<and> fd_table_ok (ex_pcb 1 (Some 100) [Some 7, None, Some 9, None])
   \<and> sys_open ex_cfg (ex_ops (Some 42)) (ex_tf 0) (ex_state [Some 7, None, Some 9, None])
       = Inr (1, (ex_state [Some 7, Some 42, Some 9, None])\<lparr>vfs := 11\<rparr>)
   \<and> sys_open ex_cfg (ex_ops None) (ex_tf 0) (ex_state [Some 7, None, Some 9, None])
       = Inr (- 11, (ex_state [Some 7, None, Some 9, None])\<lparr>vfs := 10\<rparr>)
   \<and> sys_open ex_cfg (ex_ops (Some 42)) (ex_tf 0) (ex_state [Some 7, Some 8, Some 9, Some 6])
       = Inr (- 11, ex_state [Some 7, Some 8, Some 9, Some 6])"
proof -
  let ?half = "[Some 7, None, Some 9, None] :: addr option list"
  let ?full = "[Some 7, Some 8, Some 9, Some 6] :: addr option list"
  have h: "heap (ex_state ?half) (current (ex_state ?half)) = Some (ex_pcb 1 (Some 100) ?half)"
    and ok: "fd_table_ok (ex_pcb 1 (Some 100) ?half)"
    and h': "heap (ex_state ?full) (current (ex_state ?full)) = Some (ex_pcb 1 (Some 100) ?full)"
    and ok': "fd_table_ok (ex_pcb 1 (Some 100) ?full)"
    by (simp_all add: ex_state_def ex_pcb_def fd_table_ok_def)
  have first: "\<forall>j<1. fd (ex_pcb 1 (Some 100) ?half) ! j \<noteq> None"
    by (simp add: ex_pcb_def)
  have full: "\<forall>j<4. fd (ex_pcb 1 (Some 100) ?full) ! j \<noteq> None"
    by (simp add: ex_pcb_def nth_Cons' less_Suc_eq numeral_eq_Suc)
  from sys_open_scan [OF h ok, of 1 "ex_ops (Some 42)" "ex_tf 0" 42 10 ex_cfg] first
  have "sys_open ex_cfg (ex_ops (Some 42)) (ex_tf 0) (ex_state ?half)
          = Inr (1, (ex_state [Some 7, Some 42, Some 9, None])\<lparr>vfs := 11\<rparr>)"
    by (simp add: ex_state_def ex_pcb_def ex_ops_def ex_tf_def)
  moreover
  from sys_open_scan [OF h ok, of 1 "ex_ops None" "ex_tf 0" _ 10 ex_cfg] first
  have "sys_open ex_cfg (ex_ops None) (ex_tf 0) (ex_state ?half)
          = Inr (- 11, (ex_state ?half)\<lparr>vfs := 10\<rparr>)"
    by (simp add: ex_state_def ex_pcb_def ex_ops_def ex_tf_def ex_cfg_def)
  moreover
  from sys_open_scan [OF h' ok', of _ "ex_ops (Some 42)" "ex_tf 0" _ _ ex_cfg] full
  have "sys_open ex_cfg (ex_ops (Some 42)) (ex_tf 0) (ex_state ?full)
          = Inr (- 11, ex_state ?full)"
    by (simp add: ex_cfg_def)
  ultimately show ?thesis
    using h ok by simp
qed

text \<open>
  C5, as amended. Given that \<open>EAGAIN\<close> is positive, open returns \<open>-EAGAIN\<close> exactly
  when all 4 slots are occupied or the path lookup fails.
\<close>

theorem sys_open_eagain_iff:
  assumes cur: "heap s (current s) = Some cur" and ok: "fd_table_ok cur"
    and pos: "word_sless 0 (EAGAIN c)"
  shows "(\<exists>s'. sys_open c ops tf s = Inr (- EAGAIN c, s'))
          \<longleftrightarrow> ((\<forall>j<4. fd cur ! j \<noteq> None)
               \<or> fst (vfs_get_inode ops (a0 (gpr tf)) (vfs s)) = None)"
proof (cases "\<forall>j<4. fd cur ! j \<noteq> None")
  case True
  with sys_open_full [OF cur ok] show ?thesis by simp
next
  case False
  with first_empty_or_full [of "fd cur"]
  obtain k where k: "k < 4" and emp: "fd cur ! k = None" and occ: "\<forall>j<k. fd cur ! j \<noteq> None"
    by blast
  obtain inode v1 where look: "vfs_get_inode ops (a0 (gpr tf)) (vfs s) = (inode, v1)"
    by (cases "vfs_get_inode ops (a0 (gpr tf)) (vfs s)")
  show ?thesis
  proof (cases inode)
    case None
    with look sys_open_first_empty(2) [OF cur ok k occ emp] show ?thesis by simp
  next
    case (Some n)
    with look sys_open_first_empty(1) [OF cur ok k occ emp]
    have "\<exists>s1. sys_open c ops tf s = Inr (of_nat k, s1)" by simp
    with neg_errno_not_index [OF pos k] have "\<not> (\<exists>s'. sys_open c ops tf s = Inr (- EAGAIN c, s'))"
      by auto
    with False look Some show ?thesis by simp
  qed
qed

theorem sys_open_eagain_iff_witness:
  "heap (ex_state [Some 7, None, Some 9, None]) (current (ex_state [Some 7, None, Some 9, None]))
     = Some (ex_pcb 1 (Some 100) [Some 7, None, Some 9, None])
   \<and> fd_table_ok (ex_pcb 1 (Some 100) [Some 7, None, Some 9, None])
   \<and> word_sless 0 (EAGAIN ex_cfg)
   \<and> (\<exists>s'. sys_open ex_cfg (ex_ops None) (ex_tf 0) (ex_state [Some 7, None, Some 9, None])
              = Inr (- EAGAIN ex_cfg, s'))
   \<and> fst (vfs_get_inode (ex_ops None) (a0 (gpr (ex_tf 0)))
            (vfs (ex_state [Some 7, None, Some 9, None]))) = None
   \<and> \<not> (\<exists>s'. sys_open ex_cfg (ex_ops (Some 42)) (ex_tf 0) (ex_state [Some 7, None, Some 9, None])
              = Inr (- EAGAIN ex_cfg, s'))"
proof -
  let ?half = "[Some 7, None, Some 9, None] :: addr option list"
  have h: "heap (ex_state ?half) (current (ex_state ?half)) = Some (ex_pcb 1 (Some 100) ?half)"
    and ok: "fd_table_ok (ex_pcb 1 (Some 100) ?half)"
    and pos: "word_sless 0 (EAGAIN ex_cfg)"
    by (simp_all add: ex_state_def ex_pcb_def fd_table_ok_def ex_cfg_def word_sless_alt)
  have emp: "\<not> (\<forall>j<4. fd (ex_pcb 1 (Some 100) ?half) ! j \<noteq> None)"
    by (auto simp: ex_pcb_def intro: exI [of _ 1])
  have miss: "fst (vfs_get_inode (ex_ops None) (a0 (gpr (ex_tf 0))) (vfs (ex_state ?half))) = None"
    and hit: "fst (vfs_get_inode (ex_ops (Some 42)) (a0 (gpr (ex_tf 0))) (vfs (ex_state ?half)))
               \<noteq> None"
    by (simp_all add: ex_ops_def)
  from sys_open_eagain_iff [OF h ok pos, of "ex_ops None" "ex_tf 0"] miss
  have "\<exists>s'. sys_open ex_cfg (ex_ops None) (ex_tf 0) (ex_state ?half) = Inr (- EAGAIN ex_cfg, s')"
    by simp
  moreover
  from sys_open_eagain_iff [OF h ok pos, of "ex_ops (Some 42)" "ex_tf 0"] emp hit
  have "\<not> (\<exists>s'. sys_open ex_cfg (ex_ops (Some 42)) (ex_tf 0) (ex_state ?half)
               = Inr (- EAGAIN ex_cfg, s'))"
    by simp
  ultimately show ?thesis
    using h ok pos miss by simp
qed

text \<open>
  The claim as first stated fails: with slot 1 (and slot 3) empty and a lookup that
  fails, open returns \<open>-EAGAIN\<close> although not all 4 slots are occupied.
\<close>

theorem sys_open_eagain_counterexample:
  "sys_open ex_cfg (ex_ops None) (ex_tf 0) (ex_state [Some 7, None, Some 9, None])
     = Inr (- EAGAIN ex_cfg, (ex_state [Some 7, None, Some 9, None])\<lparr>vfs := 10\<rparr>)
   \<and> heap (ex_state [Some 7, None, Some 9, None]) (current (ex_state [Some 7, None, Some 9, None]))
       = Some (ex_pcb 1 (Some 100) [Some 7, None, Some 9, None])
   \<and> fd (ex_pcb 1 (Some 100) [Some 7, None, Some 9, None]) ! 1 = None"
  by (simp add: sys_open_def deref_def fd_read_def fd_write_def set_current_def
      ex_state_def ex_pcb_def ex_ops_def ex_tf_def ex_cfg_def)

text \<open>
  C9. Given that \<open>EAGAIN\<close> is positive: when open returns \<open>-EAGAIN\<close>, the store of
  PCBs is the one before the call, so the caller's fd table is as it was; only the file
  system's state may differ.
\<close>

theorem sys_open_failure_keeps_table:
  assumes cur: "heap s (current s) = Some cur" and ok: "fd_table_ok cur"
    and pos: "word_sless 0 (EAGAIN c)"
    and res: "sys_open c ops tf s = Inr (- EAGAIN c, s')"
  shows "s' = s\<lparr>vfs := vfs s'\<rparr> \<and> heap s' (current s') = Some cur"
proof (cases "\<forall>j<4. fd cur ! j \<noteq> None")
  case True
  with sys_open_full [OF cur ok] res cur show ?thesis by simp
next
  case False
  with first_empty_or_full [of "fd cur"]
  obtain k where k: "k < 4" and emp: "fd cur ! k = None" and occ: "\<forall>j<k. fd cur ! j \<noteq> None"
    by blast
  obtain inode v1 where look: "vfs_get_inode ops (a0 (gpr tf)) (vfs s) = (inode, v1)"
    by (cases "vfs_get_inode ops (a0 (gpr tf)) (vfs s)")
  show ?thesis
  proof (cases inode)
    case None
    with look sys_open_first_empty(2) [OF cur ok k occ emp] res cur show ?thesis by auto
  next
    case (Some n)
    with look sys_open_first_empty(1) [OF cur ok k occ emp] res
    have "- EAGAIN c = of_nat k" by simp
    with neg_errno_not_index [OF pos k] show ?thesis by simp
  qed
qed

theorem sys_open_failure_keeps_table_witness:
  "heap (ex_state [Some 7, None, Some 9, None]) (current (ex_state [Some 7, None, Some 9, None]))
     = Some (ex_pcb 1 (Some 100) [Some 7, None, Some 9, None])
   \<and> fd_table_ok (ex_pcb 1 (Some 100) [Some 7, None, Some 9, None])
   \<and> word_sless 0 (EAGAIN ex_cfg)
   \<and> sys_open ex_cfg (ex_ops None) (ex_tf 0) (ex_state [Some 7, None, Some 9, None])
       = Inr (- EAGAIN ex_cfg, (ex_state [Some 7, None, Some 9, None])\<lparr>vfs := 10\<rparr>)
   \<and> heap ((ex_state [Some 7, None, Some 9, None])\<lparr>vfs := 10\<rparr>)
        (current ((ex_state [Some 7, None, Some 9, None])\<lparr>vfs := 10\<rparr>))
       = Some (ex_pcb 1 (Some 100) [Some 7, None, Some 9, None])"
proof -
  let ?half = "[Some 7, None, Some 9, None] :: addr option list"
  have h: "heap (ex_state ?half) (current (ex_state ?half)) = Some (ex_pcb 1 (Some 100) ?half)"
    and ok: "fd_table_ok (ex_pcb 1 (Some 100) ?half)"
    and pos: "word_sless 0 (EAGAIN ex_cfg)"
    by (simp_all add: ex_state_def ex_pcb_def fd_table_ok_def ex_cfg_def word_sless_alt)
  have res: "sys_open ex_cfg (ex_ops None) (ex_tf 0) (ex_state ?half)
               = Inr (- EAGAIN ex_cfg, (ex_state ?half)\<lparr>vfs := 10\<rparr>)"
    by (simp add: sys_open_def deref_def fd_read_def fd_write_def set_current_def
        ex_state_def ex_pcb_def ex_ops_def ex_tf_def ex_cfg_def)
  from sys_open_failure_keeps_table [OF h ok pos res] h ok pos res
  show ?thesis by simp
qed

subsection \<open>close and stat\<close>

text \<open>
  What the guard \<^verbatim>\<open>fd > 4\<close> does get right: a descriptor above 4 is refused with
  \<open>-EINVAL\<close> and nothing changes; a descriptor below 4 is closed (the slot is cleared,
  what it held is handed to \<^verbatim>\<open>vfs_free_inode\<close>) and 0 is returned.
\<close>

lemma sys_close_above_4:
  "4 < a0 (gpr tf) \<Longrightarrow> sys_close c ops tf s = Inr (- EINVAL c, s)"
  by (simp add: sys_close_def Let_def)

lemma sys_close_below_4:
  assumes cur: "heap s (current s) = Some cur" and ok: "fd_table_ok cur"
    and lt: "a0 (gpr tf) < 4"
  shows "sys_close c ops tf s =
           Inr (0, s\<lparr>vfs := vfs_free_inode ops (fd cur ! unat (a0 (gpr tf))) (vfs s),
                    heap := (heap s)(current s \<mapsto>
                              cur\<lparr>fd := (fd cur)[unat (a0 (gpr tf)) := None]\<rparr>)\<rparr>)"
proof -
  from lt have "unat (a0 (gpr tf)) < 4" by (simp add: word_less_nat_alt)
  moreover from lt have "\<not> 4 < a0 (gpr tf)" by simp
  ultimately show ?thesis
    using cur ok
    by (simp add: sys_close_def deref_def fd_read_def fd_write_def set_current_def
        fd_table_ok_def Let_def)
qed

lemma sys_stat_above_4:
  "4 < a0 (gpr tf) \<Longrightarrow> sys_stat c ops tf s = Inr (- EINVAL c, s)"
  by (simp add: sys_stat_def Let_def)

lemma sys_stat_below_4:
  assumes cur: "heap s (current s) = Some cur" and ok: "fd_table_ok cur"
    and lt: "a0 (gpr tf) < 4"
  shows "sys_stat c ops tf s =
           (case fd cur ! unat (a0 (gpr tf)) of
              None \<Rightarrow> Inr (- EINVAL c, s)
            | Some inode \<Rightarrow>
                Inr (0, s\<lparr>umem := (umem s)(a1 (gpr tf) \<mapsto> vfs_get_stat ops inode (vfs s))\<rparr>))"
proof -
  from lt have "unat (a0 (gpr tf)) < 4" by (simp add: word_less_nat_alt)
  moreover from lt have "\<not> 4 < a0 (gpr tf)" by simp
  ultimately show ?thesis
    using cur ok
    by (simp add: sys_stat_def deref_def fd_read_def fd_table_ok_def Let_def
        split: option.splits)
qed

text \<open>
  C2. The descriptor 4 is outside \<open>[0, 4)\<close> and passes the guard \<^verbatim>\<open>fd > 4\<close>: close
  does not return \<open>-EINVAL\<close>, it goes on to \<^verbatim>\<open>current->fd[4]\<close>, one element beyond
  the table of 4.
\<close>

theorem sys_close_fd_4:
  assumes cur: "heap s (current s) = Some cur" and ok: "fd_table_ok cur"
    and fd4: "a0 (gpr tf) = 4"
  shows "sys_close c ops tf s = Inl OutOfBounds"
  using cur ok fd4
  by (simp add: sys_close_def deref_def fd_read_def fd_table_ok_def Let_def)

theorem sys_close_fd_4_witness:
  "heap (ex_state [Some 7, None, Some 9, None]) (current (ex_state [Some 7, None, Some 9, None]))
     = Some (ex_pcb 1 (Some 100) [Some 7, None, Some 9, None])
   \<and> fd_table_ok (ex_pcb 1 (Some 100) [Some 7, None, Some 9, None])
   \<and> a0 (gpr (ex_tf 4)) = 4
   \<and> sys_close ex_cfg (ex_ops None) (ex_tf 4) (ex_state [Some 7, None, Some 9, None])
       = Inl OutOfBounds
   \<and> sys_close ex_cfg (ex_ops None) (ex_tf 4) (ex_state [Some 7, None, Some 9, None])
       \<noteq> Inr (- EINVAL ex_cfg, ex_state [Some 7, None, Some 9, None])"
proof -
  let ?half = "[Some 7, None, Some 9, None] :: addr option list"
  have h: "heap (ex_state ?half) (current (ex_state ?half)) = Some (ex_pcb 1 (Some 100) ?half)"
    and ok: "fd_table_ok (ex_pcb 1 (Some 100) ?half)"
    and fd4: "a0 (gpr (ex_tf 4)) = 4"
    by (simp_all add: ex_state_def ex_pcb_def fd_table_ok_def ex_tf_def)
  from sys_close_fd_4 [OF h ok fd4, of ex_cfg "ex_ops None"] h ok fd4
  show ?thesis by simp
qed

text \<open>
  C6. The same guard in stat: the descriptor 4 is outside \<open>[0, 4)\<close>, and stat does not
  return \<open>-EINVAL\<close> but reads \<^verbatim>\<open>current->fd[4]\<close>, one element beyond the table.
\<close>

theorem sys_stat_fd_4:
  assumes cur: "heap s (current s) = Some cur" and ok: "fd_table_ok cur"
    and fd4: "a0 (gpr tf) = 4"
  shows "sys_stat c ops tf s = Inl OutOfBounds"
  using cur ok fd4
  by (simp add: sys_stat_def deref_def fd_read_def fd_table_ok_def Let_def)

theorem sys_stat_fd_4_witness:
  "heap (ex_state [Some 7, None, Some 9, None]) (current (ex_state [Some 7, None, Some 9, None]))
     = Some (ex_pcb 1 (Some 100) [Some 7, None, Some 9, None])
   \<and> fd_table_ok (ex_pcb 1 (Some 100) [Some 7, None, Some 9, None])
   \<and> a0 (gpr (ex_tf 4)) = 4
   \<and> sys_stat ex_cfg (ex_ops None) (ex_tf 4) (ex_state [Some 7, None, Some 9, None])
       = Inl OutOfBounds
   \<and> sys_stat ex_cfg (ex_ops None) (ex_tf 4) (ex_state [Some 7, None, Some 9, None])
       \<noteq> Inr (- EINVAL ex_cfg, ex_state [Some 7, None, Some 9, None])"
proof -
  let ?half = "[Some 7, None, Some 9, None] :: addr option list"
  have h: "heap (ex_state ?half) (current (ex_state ?half)) = Some (ex_pcb 1 (Some 100) ?half)"
    and ok: "fd_table_ok (ex_pcb 1 (Some 100) ?half)"
    and fd4: "a0 (gpr (ex_tf 4)) = 4"
    by (simp_all add: ex_state_def ex_pcb_def fd_table_ok_def ex_tf_def)
  from sys_stat_fd_4 [OF h ok fd4, of ex_cfg "ex_ops None"] h ok fd4
  show ?thesis by simp
qed

text \<open>Below 4 the scenario of the spec holds: after close, stat on the same fd fails.\<close>

lemma stat_after_close:
  assumes cur: "heap s (current s) = Some cur" and ok: "fd_table_ok cur"
    and lt: "a0 (gpr tf) < 4" and cl: "sys_close c ops tf s = Inr (r, s')"
  shows "sys_stat c ops tf s' = Inr (- EINVAL c, s')"
proof -
  let ?cur' = "cur\<lparr>fd := (fd cur)[unat (a0 (gpr tf)) := None]\<rparr>"
  from lt have n: "unat (a0 (gpr tf)) < 4" by (simp add: word_less_nat_alt)
  from cl sys_close_below_4 [OF cur ok lt, of c ops]
  have s': "s' = s\<lparr>vfs := vfs_free_inode ops (fd cur ! unat (a0 (gpr tf))) (vfs s),
                   heap := (heap s)(current s \<mapsto> ?cur')\<rparr>"
    by simp
  then have "heap s' (current s') = Some ?cur'" by simp
  moreover from ok have "fd_table_ok ?cur'" by (simp add: fd_table_ok_def)
  ultimately have "sys_stat c ops tf s' =
      (case fd ?cur' ! unat (a0 (gpr tf)) of
         None \<Rightarrow> Inr (- EINVAL c, s')
       | Some inode \<Rightarrow>
           Inr (0, s'\<lparr>umem := (umem s')(a1 (gpr tf) \<mapsto> vfs_get_stat ops inode (vfs s'))\<rparr>))"
    using lt by (rule sys_stat_below_4)
  with n ok show ?thesis by (simp add: fd_table_ok_def)
qed

subsection \<open>fork\<close>

lemma first_free_slot_free:
  "first_free_slot ts = Some i \<Longrightarrow> i < length ts \<and> ts ! i = None"
proof (induction ts arbitrary: i)
  case Nil
  then show ?case by simp
next
  case (Cons t ts)
  show ?case
  proof (cases t)
    case None
    with Cons.prems show ?thesis by simp
  next
    case (Some p)
    with Cons.prems obtain j where "first_free_slot ts = Some j" and "i = Suc j"
      by auto
    with Cons.IH [of j] show ?thesis by simp
  qed
qed

text \<open>
  C8. Whenever fork succeeds, the value it returns, which the caller receives, is the
  child's pid, a positive value that no process in the table had; the child's PCB sits in
  a slot of the task table that was free, records the caller as its parent and holds a
  saved trap frame whose \<^verbatim>\<open>a0\<close> is 0, so that the same call returns 0 when the child
  resumes. The caller's PCB is not touched.
\<close>

theorem sys_fork_double_return:
  assumes ok: "sys_fork new_pid new_pcb tf s = Some (r, s')"
  shows "(\<exists>child slot. heap s' new_pcb = Some child
             \<and> sint r = int (pid child) \<and> 0 < sint r
             \<and> pid child \<notin> set (pids_in_use s)
             \<and> p_pptr child = Some (current s)
             \<and> a0 (gpr (saved_tf child)) = 0
             \<and> slot < length (tasks s) \<and> tasks s ! slot = None
             \<and> tasks s' = (tasks s)[slot := Some new_pcb])
       \<and> new_pcb \<noteq> current s
       \<and> current s' = current s
       \<and> heap s' (current s) = heap s (current s)"
proof -
  from ok obtain cur slot where cur: "heap s (current s) = Some cur"
    and slot: "first_free_slot (tasks s) = Some slot"
    and pos: "0 < new_pid" and small: "new_pid < 2 ^ 63"
    and unique: "new_pid \<notin> set (pids_in_use s)"
    and fresh: "heap s new_pcb = None"
    by (auto simp: sys_fork_def split: option.splits if_splits)
  let ?child = "cur\<lparr>pid := new_pid, p_pptr := Some (current s), fd := replicate 4 None,
                     saved_tf := tf\<lparr>gpr := (gpr tf)\<lparr>a0 := 0\<rparr>\<rparr>\<rparr>"
  from ok cur slot pos small unique fresh have r: "r = of_nat new_pid"
    and s': "s' = s\<lparr>tasks := (tasks s)[slot := Some new_pcb],
                     heap := (heap s)(new_pcb \<mapsto> ?child)\<rparr>"
    by (simp_all add: sys_fork_def Let_def)
  from r small have sr: "sint r = int new_pid"
    by (simp add: sint_of_nat_small)
  from cur fresh have ne: "new_pcb \<noteq> current s" by auto
  from first_free_slot_free [OF slot]
  have free: "slot < length (tasks s) \<and> tasks s ! slot = None" .
  have "heap s' new_pcb = Some ?child
        \<and> sint r = int (pid ?child) \<and> 0 < sint r
        \<and> pid ?child \<notin> set (pids_in_use s)
        \<and> p_pptr ?child = Some (current s) \<and> a0 (gpr (saved_tf ?child)) = 0
        \<and> slot < length (tasks s) \<and> tasks s ! slot = None
        \<and> tasks s' = (tasks s)[slot := Some new_pcb]"
    using s' free sr pos unique by simp
  then have "\<exists>child slot. heap s' new_pcb = Some child
             \<and> sint r = int (pid child) \<and> 0 < sint r
             \<and> pid child \<notin> set (pids_in_use s)
             \<and> p_pptr child = Some (current s)
             \<and> a0 (gpr (saved_tf child)) = 0
             \<and> slot < length (tasks s) \<and> tasks s ! slot = None
             \<and> tasks s' = (tasks s)[slot := Some new_pcb]"
    by blast
  moreover from s' ne have "current s' = current s" "heap s' (current s) = heap s (current s)"
    by simp_all
  ultimately show ?thesis
    using ne by simp
qed

lemma replicate_4: "replicate 4 x = [x, x, x, x]"
  by (simp add: numeral_eq_Suc)

theorem sys_fork_double_return_witness:
  "sys_fork 2 300 (ex_tf 5) (ex_state [])
     = Some (2, (ex_state [])\<lparr>tasks := [Some 100, Some 200, Some 300],
                 heap := (heap (ex_state []))(300 \<mapsto>
                    (ex_pcb 2 (Some 200) [None, None, None, None])\<lparr>saved_tf := ex_tf 0\<rparr>)\<rparr>)
   \<and> sint (2 :: i64) = 2
   \<and> pids_in_use (ex_state [] :: (nat, nat) kstate) = [0, 1]
   \<and> sys_fork 0 300 (ex_tf 5) (ex_state []) = None
   \<and> sys_fork 1 300 (ex_tf 5) (ex_state []) = None"
proof -
  have run: "sys_fork 2 300 (ex_tf 5) (ex_state [])
     = Some (2, (ex_state [])\<lparr>tasks := [Some 100, Some 200, Some 300],
                 heap := (heap (ex_state []))(300 \<mapsto>
                    (ex_pcb 2 (Some 200) [None, None, None, None])\<lparr>saved_tf := ex_tf 0\<rparr>)\<rparr>)"
    by (simp add: sys_fork_def pids_in_use_def ex_state_def ex_pcb_def ex_tf_def Let_def
        replicate_4)
  have "pids_in_use (ex_state [] :: (nat, nat) kstate) = [0, 1]"
    and "sys_fork 0 300 (ex_tf 5) (ex_state []) = None"
    and "sys_fork 1 300 (ex_tf 5) (ex_state []) = None"
    by (simp_all add: sys_fork_def pids_in_use_def ex_state_def ex_pcb_def)
  with sys_fork_double_return [OF run] run
  show ?thesis by simp
qed

end
